theory Spec2Isabelle
  imports Complex_Main "HOL-Library.Log_Nat"
begin

section \<open>The Qomo pricing engine (src/services/pricingEngine.ts)\<close>

text \<open>
  The engine is four exported functions over two plain data interfaces. This theory
  embeds them as HOL functions and proves the properties the specification states
  about them.

  Numbers. A TypeScript \<^verbatim>\<open>number\<close> is an IEEE 754 double. Type \<open>number\<close> below holds
  the finite doubles, as the rationals they denote, the two infinities and NaN. Every
  arithmetic operation computes the exact result and rounds it to the nearest double,
  ties to the even significand, as the hardware does; a result beyond the largest
  double is an infinity. The zeros \<^verbatim>\<open>+0\<close> and \<^verbatim>\<open>-0\<close> are one value: they are
  \<^verbatim>\<open>===\<close>, and no operation of the engine (it never divides by a variable) tells them
  apart. A decimal literal of the source, such as \<^verbatim>\<open>0.8\<close>, denotes the double nearest
  to it: \<open>toNumber (4 / 5)\<close>.

  Time. \<^verbatim>\<open>applyView\<close> and \<^verbatim>\<open>applyPurchase\<close> read the wall clock with
  \<^verbatim>\<open>Date.now()\<close>. The value read is an input of the model, the parameter \<open>now\<close>:
  a number of milliseconds since the epoch, of type \<^typ>\<open>nat\<close>.

  Absent values. A field of type \<^verbatim>\<open>string | null\<close>, \<^verbatim>\<open>number | null\<close> or an
  optional field is an \<^typ>\<open>'a option\<close>.
\<close>

subsection \<open>Double-precision numbers\<close>

datatype number = Finite rat | PosInfinity | NegInfinity | NaN

text \<open>
  The binary exponent of a non-zero rational: \<open>2 powi expo r \<le> \<bar>r\<bar> < 2 powi (expo r + 1)\<close>
  (lemma \<open>expo_bounds\<close>). The bit lengths of numerator and denominator give it up to one.
\<close>

definition expo :: "rat \<Rightarrow> int" where
  "expo r =
     (let d = bitlen \<bar>fst (quotient_of r)\<bar> - bitlen (snd (quotient_of r))
      in if 2 powi d \<le> \<bar>r\<bar> then d else d - 1)"

text \<open>The nearest integer, a tie going to the even one.\<close>

definition roundHalfEven :: "rat \<Rightarrow> int" where
  "roundHalfEven x =
     (let f = \<lfloor>x\<rfloor>; d = x - of_int f
      in if d < 1 / 2 then f else if 1 / 2 < d then f + 1 else if even f then f else f + 1)"

text \<open>
  The distance between neighbouring doubles around \<open>r\<close>: 53 significant bits, and
  \<open>2\<^sup>-\<^sup>1\<^sup>0\<^sup>7\<^sup>4\<close> in the subnormal range.
\<close>

definition quantum :: "rat \<Rightarrow> rat" where
  "quantum r = 2 powi (max (expo r - 52) (- 1074))"

definition roundToDouble :: "rat \<Rightarrow> rat" where
  "roundToDouble r = (if r = 0 then 0 else of_int (roundHalfEven (r / quantum r)) * quantum r)"

text \<open>
  The double an exact result is delivered as. The largest finite double is
  \<open>2\<^sup>1\<^sup>0\<^sup>2\<^sup>4 - 2\<^sup>9\<^sup>7\<^sup>1\<close>; a rounded magnitude of \<open>2\<^sup>1\<^sup>0\<^sup>2\<^sup>4\<close> or more overflows.
\<close>

definition toNumber :: "rat \<Rightarrow> number" where
  "toNumber r =
     (let d = roundToDouble r
      in if d \<noteq> 0 \<and> 1024 \<le> expo d then (if 0 < d then PosInfinity else NegInfinity)
         else Finite d)"

fun signedInfinity :: "bool \<Rightarrow> number" where
  "signedInfinity True = PosInfinity"
| "signedInfinity False = NegInfinity"

text \<open>\<^verbatim>\<open>a + b\<close>\<close>

fun nadd :: "number \<Rightarrow> number \<Rightarrow> number" where
  "nadd (Finite a) (Finite b) = toNumber (a + b)"
| "nadd NaN _ = NaN"
| "nadd _ NaN = NaN"
| "nadd PosInfinity NegInfinity = NaN"
| "nadd NegInfinity PosInfinity = NaN"
| "nadd PosInfinity _ = PosInfinity"
| "nadd NegInfinity _ = NegInfinity"
| "nadd _ PosInfinity = PosInfinity"
| "nadd _ NegInfinity = NegInfinity"

fun nneg :: "number \<Rightarrow> number" where
  "nneg (Finite a) = Finite (- a)"
| "nneg PosInfinity = NegInfinity"
| "nneg NegInfinity = PosInfinity"
| "nneg NaN = NaN"

text \<open>\<^verbatim>\<open>a - b\<close>\<close>

definition nsub :: "number \<Rightarrow> number \<Rightarrow> number" where
  "nsub a b = nadd a (nneg b)"

text \<open>\<^verbatim>\<open>a * b\<close>\<close>

fun nmul :: "number \<Rightarrow> number \<Rightarrow> number" where
  "nmul (Finite a) (Finite b) = toNumber (a * b)"
| "nmul NaN _ = NaN"
| "nmul _ NaN = NaN"
| "nmul PosInfinity (Finite b) = (if b = 0 then NaN else signedInfinity (0 < b))"
| "nmul NegInfinity (Finite b) = (if b = 0 then NaN else signedInfinity (b < 0))"
| "nmul (Finite a) PosInfinity = (if a = 0 then NaN else signedInfinity (0 < a))"
| "nmul (Finite a) NegInfinity = (if a = 0 then NaN else signedInfinity (a < 0))"
| "nmul PosInfinity PosInfinity = PosInfinity"
| "nmul NegInfinity NegInfinity = PosInfinity"
| "nmul PosInfinity NegInfinity = NegInfinity"
| "nmul NegInfinity PosInfinity = NegInfinity"

text \<open>\<^verbatim>\<open>a / b\<close>; a zero divisor is taken as \<^verbatim>\<open>+0\<close>. The engine divides by 100 only.\<close>

fun ndiv :: "number \<Rightarrow> number \<Rightarrow> number" where
  "ndiv (Finite a) (Finite b) =
     (if b = 0 then (if a = 0 then NaN else signedInfinity (0 < a)) else toNumber (a / b))"
| "ndiv NaN _ = NaN"
| "ndiv _ NaN = NaN"
| "ndiv (Finite a) PosInfinity = Finite 0"
| "ndiv (Finite a) NegInfinity = Finite 0"
| "ndiv PosInfinity (Finite b) = signedInfinity (0 \<le> b)"
| "ndiv NegInfinity (Finite b) = signedInfinity (b < 0)"
| "ndiv PosInfinity PosInfinity = NaN"
| "ndiv PosInfinity NegInfinity = NaN"
| "ndiv NegInfinity PosInfinity = NaN"
| "ndiv NegInfinity NegInfinity = NaN"

text \<open>\<^verbatim>\<open>a < b\<close>: false as soon as one side is NaN.\<close>

fun nless :: "number \<Rightarrow> number \<Rightarrow> bool" where
  "nless (Finite a) (Finite b) = (a < b)"
| "nless NaN _ = False"
| "nless _ NaN = False"
| "nless NegInfinity NegInfinity = False"
| "nless NegInfinity _ = True"
| "nless _ NegInfinity = False"
| "nless PosInfinity _ = False"
| "nless _ PosInfinity = True"

text \<open>
  \<^verbatim>\<open>Math.round\<close>: the nearest integer, a tie going up. The result is computed exactly;
  it is a double whenever the argument is one.
\<close>

fun mathRound :: "number \<Rightarrow> number" where
  "mathRound (Finite x) = Finite (of_int \<lfloor>x + 1 / 2\<rfloor>)"
| "mathRound PosInfinity = PosInfinity"
| "mathRound NegInfinity = NegInfinity"
| "mathRound NaN = NaN"

text \<open>\<^verbatim>\<open>Number.EPSILON\<close>\<close>

definition EPSILON :: number where
  "EPSILON = Finite (1 / 2 ^ 52)"

subsection \<open>Types\<close>

record DropConfig =
  productId :: string
  name :: string
  basePrice :: number
  viewingFee :: number
  priceDropShare :: number
  platformShare :: number
  supplierShareOfPlatform :: number
  qomoShareOfPlatform :: number
  minPrice :: number

record DropState =
  productId :: string
  currentPrice :: number
  isSold :: bool
  totalViews :: nat
  buyerId :: "string option"
  soldPrice :: "number option"
  activeViewerId :: "string option"
  activeViewExpiresAt :: "nat option"
  queue :: "string list"
  totalPlatformRevenue :: number
  totalSupplierPlatformRevenue :: number
  totalQomoRevenue :: number

datatype ViewStatus = LOCKED | QUEUED | SOLD | ERROR

record ViewEventResult =
  success :: bool
  status :: ViewStatus
  expiresAt :: "nat option"
  queuePosition :: "int option"
  dropAmount :: number
  newPrice :: number
  feeCharged :: number
  state :: DropState
  error :: "string option"

record PurchaseResult =
  success :: bool
  soldPrice :: number
  totalSupplierRevenue :: number
  totalQomoRevenue :: number
  state :: DropState
  error :: "string option"

subsection \<open>Helpers\<close>

text \<open>\<^verbatim>\<open>Math.round((amount + Number.EPSILON) * 100) / 100\<close>\<close>

definition roundMoney :: "number \<Rightarrow> number" where
  "roundMoney amount =
     ndiv (mathRound (nmul (nadd amount EPSILON) (Finite 100))) (Finite 100)"

text \<open>
  JavaScript truthiness, as the conditions \<^verbatim>\<open>state.activeViewerId && ...\<close> and
  \<^verbatim>\<open>state.activeViewExpiresAt && ...\<close> use it: \<^verbatim>\<open>null\<close>, the empty string and
  the number 0 are falsy.
\<close>

definition truthyString :: "string option \<Rightarrow> bool" where
  "truthyString v = (v \<noteq> None \<and> v \<noteq> Some [])"

definition truthyNumber :: "nat option \<Rightarrow> bool" where
  "truthyNumber v = (v \<noteq> None \<and> v \<noteq> Some 0)"

text \<open>\<^verbatim>\<open>x > now\<close> for a nullable \<open>x\<close>; \<^verbatim>\<open>null\<close> converts to 0.\<close>

definition laterThan :: "nat option \<Rightarrow> nat \<Rightarrow> bool" where
  "laterThan v now = (case v of None \<Rightarrow> 0 > now | Some e \<Rightarrow> e > now)"

text \<open>\<^verbatim>\<open>Array.prototype.indexOf\<close>: the first index of the element, or -1.\<close>

fun indexOf :: "string list \<Rightarrow> string \<Rightarrow> int" where
  "indexOf [] v = - 1"
| "indexOf (x # xs) v =
     (if x = v then 0
      else (let i = indexOf xs v in if i < 0 then - 1 else i + 1))"

definition LOCK_DURATION :: nat where
  "LOCK_DURATION = 30000"

subsection \<open>Core functions\<close>

definition initDrop :: "DropConfig \<Rightarrow> DropState" where
  "initDrop config =
     \<lparr> DropState.productId = DropConfig.productId config,
       currentPrice = roundMoney (basePrice config),
       isSold = False,
       totalViews = 0,
       buyerId = None,
       DropState.soldPrice = None,
       activeViewerId = None,
       activeViewExpiresAt = None,
       queue = [],
       totalPlatformRevenue = Finite 0,
       totalSupplierPlatformRevenue = Finite 0,
       DropState.totalQomoRevenue = Finite 0 \<rparr>"

text \<open>
  \<^verbatim>\<open>const isLocked = state.activeViewerId && state.activeViewExpiresAt &&
  state.activeViewExpiresAt > now\<close>, read as a condition.
\<close>

definition isLocked :: "DropState \<Rightarrow> nat \<Rightarrow> bool" where
  "isLocked st now =
     (truthyString (activeViewerId st) \<and> truthyNumber (activeViewExpiresAt st)
      \<and> laterThan (activeViewExpiresAt st) now)"

definition applyView :: "DropState \<Rightarrow> DropConfig \<Rightarrow> string \<Rightarrow> nat \<Rightarrow> ViewEventResult" where
  "applyView st config viewerId now =
     (if isSold st then
        \<lparr> ViewEventResult.success = False, status = SOLD, expiresAt = None,
          queuePosition = None, dropAmount = Finite 0, newPrice = currentPrice st,
          feeCharged = Finite 0, ViewEventResult.state = st,
          ViewEventResult.error = Some ''Product is already sold.'' \<rparr>
      else if isLocked st now then
        (if activeViewerId st = Some viewerId then
           \<lparr> ViewEventResult.success = True, status = LOCKED,
             expiresAt = activeViewExpiresAt st,
             queuePosition = None, dropAmount = Finite 0, newPrice = currentPrice st,
             feeCharged = Finite 0, ViewEventResult.state = st,
             ViewEventResult.error = None \<rparr>
         else
           (let newQueue =
                  (if viewerId \<in> set (queue st) then queue st else queue st @ [viewerId]);
                newState = st\<lparr>queue := newQueue\<rparr>
            in \<lparr> ViewEventResult.success = False, status = QUEUED, expiresAt = None,
                 queuePosition = Some (indexOf newQueue viewerId + 1),
                 dropAmount = Finite 0, newPrice = currentPrice st,
                 feeCharged = Finite 0, ViewEventResult.state = newState,
                 ViewEventResult.error = None \<rparr>))
      else if queue st \<noteq> [] \<and> hd (queue st) \<noteq> viewerId then
        (let newQueue =
               (if viewerId \<in> set (queue st) then queue st else queue st @ [viewerId]);
             newState = st\<lparr>activeViewerId := None, activeViewExpiresAt := None,
                           queue := newQueue\<rparr>
         in \<lparr> ViewEventResult.success = False, status = QUEUED, expiresAt = None,
              queuePosition = Some (indexOf newQueue viewerId + 1),
              dropAmount = Finite 0, newPrice = currentPrice st,
              feeCharged = Finite 0, ViewEventResult.state = newState,
              ViewEventResult.error = None \<rparr>)
      else
        (let priceDropAmount = roundMoney (nmul (viewingFee config) (priceDropShare config));
             platformRevenue = roundMoney (nmul (viewingFee config) (platformShare config));
             supplierShare =
               roundMoney (nmul platformRevenue (supplierShareOfPlatform config));
             qomoShare = roundMoney (nmul platformRevenue (qomoShareOfPlatform config));
             droppedPrice = nsub (currentPrice st) priceDropAmount;
             nextPrice =
               roundMoney (if nless droppedPrice (minPrice config) then minPrice config
                           else droppedPrice);
             effectiveDrop = roundMoney (nsub (currentPrice st) nextPrice);
             newQueue = filter (\<lambda>id. id \<noteq> viewerId) (queue st);
             newState =
               st\<lparr> currentPrice := nextPrice,
                   totalViews := totalViews st + 1,
                   totalPlatformRevenue :=
                     roundMoney (nadd (totalPlatformRevenue st) platformRevenue),
                   totalSupplierPlatformRevenue :=
                     roundMoney (nadd (totalSupplierPlatformRevenue st) supplierShare),
                   DropState.totalQomoRevenue :=
                     roundMoney (nadd (DropState.totalQomoRevenue st) qomoShare),
                   activeViewerId := Some viewerId,
                   activeViewExpiresAt := Some (now + LOCK_DURATION),
                   queue := newQueue \<rparr>
         in \<lparr> ViewEventResult.success = True, status = LOCKED,
              expiresAt = activeViewExpiresAt newState,
              queuePosition = None, dropAmount = effectiveDrop,
              newPrice = currentPrice newState,
              feeCharged = viewingFee config, ViewEventResult.state = newState,
              ViewEventResult.error = None \<rparr>))"

definition releaseLock :: "DropState \<Rightarrow> string \<Rightarrow> DropState" where
  "releaseLock st viewerId =
     (if activeViewerId st = Some viewerId
      then st\<lparr>activeViewerId := None, activeViewExpiresAt := None\<rparr>
      else st)"

definition applyPurchase :: "DropState \<Rightarrow> DropConfig \<Rightarrow> string \<Rightarrow> nat \<Rightarrow> PurchaseResult" where
  "applyPurchase st config buyer now =
     (if isSold st then
        \<lparr> PurchaseResult.success = False, PurchaseResult.soldPrice = Finite 0,
          totalSupplierRevenue = Finite 0, PurchaseResult.totalQomoRevenue = Finite 0,
          PurchaseResult.state = st,
          PurchaseResult.error = Some ''Product is already sold.'' \<rparr>
      else if truthyString (activeViewerId st)
              \<and> (activeViewerId st \<noteq> Some buyer
                   \<and> truthyNumber (activeViewExpiresAt st)
                   \<and> laterThan (activeViewExpiresAt st) now) then
        \<lparr> PurchaseResult.success = False, PurchaseResult.soldPrice = Finite 0,
          totalSupplierRevenue = Finite 0, PurchaseResult.totalQomoRevenue = Finite 0,
          PurchaseResult.state = st,
          PurchaseResult.error = Some ''Product is currently locked by another user.'' \<rparr>
      else
        (let sold = currentPrice st;
             supplierTotal = roundMoney (nadd sold (totalSupplierPlatformRevenue st));
             qomoTotal = DropState.totalQomoRevenue st;
             newState =
               st\<lparr> isSold := True,
                   buyerId := Some buyer,
                   DropState.soldPrice := Some sold,
                   activeViewerId := None,
                   activeViewExpiresAt := None,
                   queue := [] \<rparr>
         in \<lparr> PurchaseResult.success = True, PurchaseResult.soldPrice = sold,
              totalSupplierRevenue = supplierTotal,
              PurchaseResult.totalQomoRevenue = qomoTotal,
              PurchaseResult.state = newState,
              PurchaseResult.error = None \<rparr>))"

subsection \<open>Executions and concrete inputs\<close>

text \<open>
  The states an execution of the engine passes through: it starts from
  \<^verbatim>\<open>initDrop(config)\<close> and each call hands the state it returns to the next one, as the
  adapters \<^verbatim>\<open>postView\<close>, \<^verbatim>\<open>postCancel\<close> and \<^verbatim>\<open>postBuy\<close> do with their store. The
  clock value of each call is arbitrary.
\<close>

inductive reachable :: "DropConfig \<Rightarrow> DropState \<Rightarrow> bool" for c :: DropConfig where
  init: "reachable c (initDrop c)"
| view: "reachable c s \<Longrightarrow> reachable c (ViewEventResult.state (applyView s c a now))"
| release: "reachable c s \<Longrightarrow> reachable c (releaseLock s a)"
| purchase: "reachable c s \<Longrightarrow> reachable c (PurchaseResult.state (applyPurchase s c b now))"

text \<open>The example scenario of the specification (section 8).\<close>

definition exampleConfig :: DropConfig where
  "exampleConfig =
     \<lparr> DropConfig.productId = ''iphone17'', name = ''iPhone 17 Pro'',
       basePrice = Finite 1100, viewingFee = Finite 5,
       priceDropShare = toNumber (8 / 10), platformShare = toNumber (2 / 10),
       supplierShareOfPlatform = toNumber (25 / 100), qomoShareOfPlatform = toNumber (75 / 100),
       minPrice = Finite 1000 \<rparr>"

text \<open>The state after \<open>viewer_1\<close> has been granted the lock at instant 1000.\<close>

definition viewedOnce :: DropState where
  "viewedOnce =
     ViewEventResult.state (applyView (initDrop exampleConfig) exampleConfig ''viewer_1'' 1000)"

text \<open>The example with the floor 1096.004, which is not a whole number of cents.\<close>

definition subCentFloorConfig :: DropConfig where
  "subCentFloorConfig = exampleConfig\<lparr>minPrice := toNumber (1096004 / 1000)\<rparr>"

text \<open>
  The example with base price and floor both 1000000000000002, a whole number of cents
  and a double, where neighbouring doubles are an eighth apart.
\<close>

definition largeConfig :: DropConfig where
  "largeConfig =
     exampleConfig\<lparr>basePrice := Finite 1000000000000002, minPrice := Finite 1000000000000002\<rparr>"

text \<open>
  The example with 0.83 of the fee going to the price drop, and the platform revenue
  split 0.3 to 0.7: the drop per view is 4.15.
\<close>

definition fractionalConfig :: DropConfig where
  "fractionalConfig =
     exampleConfig\<lparr> priceDropShare := toNumber (83 / 100),
                    supplierShareOfPlatform := toNumber (3 / 10),
                    qomoShareOfPlatform := toNumber (7 / 10) \<rparr>"

text \<open>The state after \<open>viewer_1\<close> has been granted the lock of that drop at instant 1000.\<close>

definition viewedFractional :: DropState where
  "viewedFractional =
     ViewEventResult.state
       (applyView (initDrop fractionalConfig) fractionalConfig ''viewer_1'' 1000)"

text \<open>The state after a viewer whose id is the empty string has been granted the lock.\<close>

definition viewedByEmptyId :: DropState where
  "viewedByEmptyId =
     ViewEventResult.state (applyView (initDrop exampleConfig) exampleConfig [] 1000)"

text \<open>The state after \<open>viewer_1\<close> has bought the drop at instant 2000.\<close>

definition soldOnce :: DropState where
  "soldOnce = PurchaseResult.state (applyPurchase viewedOnce exampleConfig ''viewer_1'' 2000)"



subsection \<open>Rounding to the nearest double\<close>

lemma quotient_of_abs:
  assumes "r \<noteq> 0"
  shows "\<bar>r\<bar> = of_int \<bar>fst (quotient_of r)\<bar> / of_int (snd (quotient_of r))"
    and "0 < \<bar>fst (quotient_of r)\<bar>" and "0 < snd (quotient_of r)"
proof -
  obtain p q where pq: "quotient_of r = (p, q)" by (cases "quotient_of r")
  then have q: "0 < q" by (rule quotient_of_denom_pos)
  have r: "r = of_int p / of_int q" using pq by (rule quotient_of_div)
  then have "p \<noteq> 0" using assms by auto
  have f: "fst (quotient_of r) = p" "snd (quotient_of r) = q" by (simp_all add: pq)
  show "0 < \<bar>fst (quotient_of r)\<bar>" unfolding f using \<open>p \<noteq> 0\<close> by simp
  show "0 < snd (quotient_of r)" unfolding f by (rule q)
  have "\<bar>of_int p / of_int q :: rat\<bar> = of_int \<bar>p\<bar> / of_int q" using q by simp
  then show "\<bar>r\<bar> = of_int \<bar>fst (quotient_of r)\<bar> / of_int (snd (quotient_of r))"
    unfolding f using r by simp
qed

lemma powi_nat: "0 \<le> n \<Longrightarrow> (2::rat) powi n = 2 ^ nat n"
  by (simp add: power_int_def)

lemma bitlen_lower: "0 < x \<Longrightarrow> (2::rat) powi (bitlen x - 1) \<le> of_int x"
proof -
  assume x: "0 < x"
  then have "1 \<le> bitlen x" by (simp add: bitlen_alt_def)
  then have "(2::rat) powi (bitlen x - 1) = 2 ^ nat (bitlen x - 1)" by (simp add: powi_nat)
  also have "\<dots> = of_int (2 ^ nat (bitlen x - 1))" by simp
  also have "\<dots> \<le> of_int x" using bitlen_bounds [OF x] by (simp only: of_int_le_iff)
  finally show ?thesis .
qed

lemma bitlen_upper: "0 < x \<Longrightarrow> of_int x < (2::rat) powi (bitlen x)"
proof -
  assume x: "0 < x"
  have "(of_int x :: rat) < of_int (2 ^ nat (bitlen x))"
    using bitlen_bounds [OF x] by (simp only: of_int_less_iff)
  also have "\<dots> = 2 powi (bitlen x)" by (simp add: powi_nat bitlen_nonneg)
  finally show ?thesis .
qed

lemma expo_bounds:
  assumes "r \<noteq> 0"
  shows "2 powi (expo r) \<le> \<bar>r\<bar>" and "\<bar>r\<bar> < 2 powi (expo r + 1)"
proof -
  let ?p = "\<bar>fst (quotient_of r)\<bar>" and ?q = "snd (quotient_of r)"
  let ?d = "bitlen ?p - bitlen ?q"
  note q = quotient_of_abs [OF assms]
  have qpos: "(0::rat) < of_int ?q" using q(3) by simp
  have lo: "(2::rat) powi (?d - 1) \<le> \<bar>r\<bar>"
  proof -
    have "(2::rat) powi (?d - 1) * of_int ?q \<le> 2 powi (?d - 1) * 2 powi (bitlen ?q)"
      using bitlen_upper [OF q(3)] by (intro mult_left_mono) auto
    also have "\<dots> = 2 powi (bitlen ?p - 1)"
      by (simp add: power_int_add [symmetric])
    also have "\<dots> \<le> of_int ?p" using q(2) by (rule bitlen_lower)
    finally have "(2::rat) powi (?d - 1) \<le> of_int ?p / of_int ?q"
      using qpos by (simp add: pos_le_divide_eq)
    then show ?thesis using q(1) by simp
  qed
  have hi: "\<bar>r\<bar> < (2::rat) powi (?d + 1)"
  proof -
    have "(of_int ?p :: rat) < 2 powi (bitlen ?p)" using q(2) by (rule bitlen_upper)
    also have "\<dots> = 2 powi (?d + 1) * 2 powi (bitlen ?q - 1)"
      by (simp add: power_int_add [symmetric])
    also have "\<dots> \<le> 2 powi (?d + 1) * of_int ?q"
      using bitlen_lower [OF q(3)] by (intro mult_left_mono) auto
    finally have "of_int ?p / of_int ?q < (2::rat) powi (?d + 1)"
      using qpos by (simp add: pos_divide_less_eq)
    then show ?thesis using q(1) by simp
  qed
  show "2 powi (expo r) \<le> \<bar>r\<bar>"
    using lo by (simp add: expo_def Let_def)
  show "\<bar>r\<bar> < 2 powi (expo r + 1)"
    using hi by (auto simp add: expo_def Let_def not_le)
qed

lemma roundHalfEven_error: "\<bar>of_int (roundHalfEven x) - x\<bar> \<le> 1 / 2"
proof -
  have "of_int \<lfloor>x\<rfloor> \<le> x" "x < of_int \<lfloor>x\<rfloor> + 1" by linarith+
  then show ?thesis
    by (auto simp add: roundHalfEven_def Let_def abs_le_iff)
qed

lemma quantum_pos: "0 < quantum r"
  by (simp add: quantum_def)

lemma quantum_le: 
  assumes "r \<noteq> 0"
  shows "quantum r \<le> \<bar>r\<bar> / 2 ^ 52 + 1 / 2 ^ 59"
proof (cases "- 1074 \<le> expo r - 52")
  case True
  then have "max (expo r - 52) (- 1074) = expo r - 52" by simp
  then have "quantum r = 2 powi (expo r - 52)" by (simp only: quantum_def)
  also have "\<dots> = 2 powi (expo r) / 2 powi 52"
    by (rule power_int_diff) simp
  also have "\<dots> = 2 powi (expo r) / 2 ^ 52" by simp
  also have "\<dots> \<le> \<bar>r\<bar> / 2 ^ 52"
    using expo_bounds(1) [OF assms] by (intro divide_right_mono) auto
  finally show ?thesis by simp
next
  case False
  then have "quantum r = 2 powi (- 1074)" by (simp add: quantum_def max_def)
  also have "\<dots> \<le> (2::rat) powi (- 59)"
    by (intro power_int_increasing) auto
  also have "\<dots> = 1 / 2 ^ 59" by (simp add: power_int_minus_divide)
  finally show ?thesis by (simp add: add_increasing)
qed

lemma roundToDouble_error: "\<bar>roundToDouble r - r\<bar> \<le> \<bar>r\<bar> / 2 ^ 53 + 1 / 2 ^ 60"
proof (cases "r = 0")
  case True
  then show ?thesis by (simp add: roundToDouble_def)
next
  case False
  let ?q = "quantum r"
  have q: "0 < ?q" by (rule quantum_pos)
  have "roundToDouble r - r = (of_int (roundHalfEven (r / ?q)) - r / ?q) * ?q"
    using False q by (simp add: roundToDouble_def algebra_simps)
  then have "\<bar>roundToDouble r - r\<bar> = \<bar>of_int (roundHalfEven (r / ?q)) - r / ?q\<bar> * ?q"
    using q by (simp add: abs_mult)
  also have "\<dots> \<le> 1 / 2 * ?q"
    using q roundHalfEven_error by (intro mult_right_mono) auto
  also have "\<dots> \<le> 1 / 2 * (\<bar>r\<bar> / 2 ^ 52 + 1 / 2 ^ 59)"
    using quantum_le [OF False] by (intro mult_left_mono) auto
  finally show ?thesis by simp
qed

lemma roundToDouble_bound:
  assumes "\<bar>r\<bar> \<le> b"
  shows "\<bar>roundToDouble r\<bar> \<le> b + b / 2 ^ 53 + 1 / 2 ^ 60"
proof -
  have "\<bar>roundToDouble r\<bar> \<le> \<bar>r\<bar> + \<bar>roundToDouble r - r\<bar>" by simp
  also have "\<dots> \<le> \<bar>r\<bar> + (\<bar>r\<bar> / 2 ^ 53 + 1 / 2 ^ 60)"
    using roundToDouble_error [of r] by simp
  also have "\<dots> \<le> b + (b / 2 ^ 53 + 1 / 2 ^ 60)"
    using assms by (intro add_mono divide_right_mono) auto
  finally show ?thesis by simp
qed

lemma toNumber_finite:
  assumes "\<bar>r\<bar> \<le> 2 ^ 40"
  shows "toNumber r = Finite (roundToDouble r)"
proof -
  let ?d = "roundToDouble r"
  have d: "\<bar>?d\<bar> \<le> 2 ^ 41"
    using roundToDouble_bound [OF assms] by simp
  have "\<not> (?d \<noteq> 0 \<and> 1024 \<le> expo ?d)"
  proof
    assume a: "?d \<noteq> 0 \<and> 1024 \<le> expo ?d"
    then have "(2::rat) powi 1024 \<le> 2 powi (expo ?d)"
      by (intro power_int_increasing) auto
    also have "\<dots> \<le> \<bar>?d\<bar>" using a by (intro expo_bounds(1)) simp
    also have "\<dots> \<le> 2 powi 41" using d by simp
    finally show False by simp
  qed
  then show ?thesis by (auto simp add: toNumber_def Let_def)
qed

lemma roundMoney_near:
  assumes "\<bar>x\<bar> \<le> 2 ^ 33"
  shows "\<exists>n. roundMoney (Finite x) = Finite (roundToDouble (of_int n / 100))
           \<and> \<bar>of_int n / 100 - x\<bar> \<le> 1 / 200 + 1 / 2 ^ 19 + 1 / 2 ^ 40"
proof -
  define y where "y = roundToDouble (x + 1 / 2 ^ 52)"
  define z where "z = roundToDouble (y * 100)"
  define n where "n = \<lfloor>z + 1 / 2\<rfloor>"
  have x: "- (2 ^ 33) \<le> x" "x \<le> 2 ^ 33" using assms unfolding abs_le_iff by simp_all
  have xe: "\<bar>x + 1 / 2 ^ 52\<bar> \<le> 2 ^ 33 + 1 / 2 ^ 52"
    using x unfolding abs_le_iff by simp
  have ey: "\<bar>y - (x + 1 / 2 ^ 52)\<bar> \<le> (2 ^ 33 + 1 / 2 ^ 52) / 2 ^ 53 + 1 / 2 ^ 60"
  proof -
    have "\<bar>y - (x + 1 / 2 ^ 52)\<bar> \<le> \<bar>x + 1 / 2 ^ 52\<bar> / 2 ^ 53 + 1 / 2 ^ 60"
      unfolding y_def by (rule roundToDouble_error)
    also have "\<dots> \<le> (2 ^ 33 + 1 / 2 ^ 52) / 2 ^ 53 + 1 / 2 ^ 60"
      using xe by (intro add_mono divide_right_mono) auto
    finally show ?thesis .
  qed
  have yb: "\<bar>y\<bar> \<le> 2 ^ 33 + 1"
    using ey x unfolding abs_le_iff by simp
  have y100: "\<bar>y * 100\<bar> \<le> (2 ^ 33 + 1) * 100"
    using yb by (simp add: abs_mult)
  have ez: "\<bar>z - y * 100\<bar> \<le> (2 ^ 33 + 1) * 100 / 2 ^ 53 + 1 / 2 ^ 60"
  proof -
    have "\<bar>z - y * 100\<bar> \<le> \<bar>y * 100\<bar> / 2 ^ 53 + 1 / 2 ^ 60"
      unfolding z_def by (rule roundToDouble_error)
    also have "\<dots> \<le> (2 ^ 33 + 1) * 100 / 2 ^ 53 + 1 / 2 ^ 60"
      using y100 by (intro add_mono divide_right_mono) auto
    finally show ?thesis .
  qed
  have en: "of_int n \<le> z + 1 / 2" "z + 1 / 2 < of_int n + 1"
    unfolding n_def by linarith+
  have near: "\<bar>of_int n / 100 - x\<bar> \<le> 1 / 200 + 1 / 2 ^ 19 + 1 / 2 ^ 40"
    using en ez ey unfolding abs_le_iff by simp
  have nb: "\<bar>of_int n / 100 :: rat\<bar> \<le> 2 ^ 40"
    using near x unfolding abs_le_iff by simp
  have s1: "nadd (Finite x) EPSILON = Finite y"
    using xe by (simp add: EPSILON_def y_def toNumber_finite)
  have s2: "nmul (Finite y) (Finite 100) = Finite z"
    using y100 by (simp add: z_def toNumber_finite)
  have s3: "mathRound (Finite z) = Finite (of_int n)"
    by (simp add: n_def)
  have s4: "ndiv (Finite (of_int n)) (Finite 100) = Finite (roundToDouble (of_int n / 100))"
    using nb by (simp add: toNumber_finite)
  have "roundMoney (Finite x) = Finite (roundToDouble (of_int n / 100))"
    by (simp only: roundMoney_def s1 s2 s3 s4)
  then show ?thesis using near by blast
qed


lemma roundMoney_nadd_cents:
  assumes "\<bar>a\<bar> \<le> 2 ^ 31" and "\<bar>b\<bar> \<le> 2 ^ 31"
  shows "\<exists>n. roundMoney (nadd (Finite a) (Finite b)) = Finite (roundToDouble (of_int n / 100))
           \<and> \<bar>of_int n / 100 - (a + b)\<bar> \<le> 1 / 200 + 1 / 2 ^ 18"
proof -
  define s where "s = roundToDouble (a + b)"
  have ab: "\<bar>a + b\<bar> \<le> 2 ^ 32"
    using assms unfolding abs_le_iff by simp
  have es: "\<bar>s - (a + b)\<bar> \<le> 2 ^ 32 / 2 ^ 53 + 1 / 2 ^ 60"
  proof -
    have "\<bar>s - (a + b)\<bar> \<le> \<bar>a + b\<bar> / 2 ^ 53 + 1 / 2 ^ 60"
      unfolding s_def by (rule roundToDouble_error)
    also have "\<dots> \<le> 2 ^ 32 / 2 ^ 53 + 1 / 2 ^ 60"
      using ab by (intro add_mono divide_right_mono) auto
    finally show ?thesis .
  qed
  have sb: "\<bar>s\<bar> \<le> 2 ^ 33"
    using es ab unfolding abs_le_iff by simp
  have sum: "nadd (Finite a) (Finite b) = Finite s"
    using ab by (simp add: s_def toNumber_finite)
  obtain n where n: "roundMoney (Finite s) = Finite (roundToDouble (of_int n / 100))"
    "\<bar>of_int n / 100 - s\<bar> \<le> 1 / 200 + 1 / 2 ^ 19 + 1 / 2 ^ 40"
    using roundMoney_near [OF sb] by blast
  have "\<bar>of_int n / 100 - (a + b)\<bar> \<le> 1 / 200 + 1 / 2 ^ 18"
    using n(2) es unfolding abs_le_iff by simp
  then show ?thesis using n(1) sum by auto
qed




text \<open>
  The doubles of the examples, IEEE 754 at work: 0.1 + 0.2 is not 0.3; 2.135 is rounded
  down to 2.13, because the double nearest to it lies below it; 1.005 is rounded up to
  1.01, which it owes to \<^verbatim>\<open>Number.EPSILON\<close>; and 2.5 * 0.87, on paper 2.175, is rounded
  down to 2.17.
\<close>

lemma double_examples:
  "toNumber (1 / 10) = Finite (3602879701896397 / 36028797018963968)"
  "nadd (toNumber (1 / 10)) (toNumber (1 / 5)) = Finite (1351079888211149 / 4503599627370496)"
  "toNumber (3 / 10) = Finite (5404319552844595 / 18014398509481984)"
  "roundMoney (toNumber (427 / 200)) = toNumber (213 / 100)"
  "roundMoney (toNumber (201 / 200)) = toNumber (101 / 100)"
  "roundMoney (nmul (toNumber (5 / 2)) (toNumber (87 / 100))) = toNumber (217 / 100)"
  by code_simp+

lemma whole_examples:
  "toNumber 0 = Finite 0" "toNumber 1 = Finite 1" "toNumber 4 = Finite 4"
  "toNumber (1 / 4) = Finite (1 / 4)" "toNumber (3 / 4) = Finite (3 / 4)"
  "toNumber (4385 / 4) = Finite (4385 / 4)"
  "roundMoney (Finite 0) = Finite 0" "roundMoney (Finite 1) = Finite 1"
  "roundMoney (Finite 4) = Finite 4"
  "roundMoney (Finite (1 / 4)) = Finite (1 / 4)" "roundMoney (Finite (3 / 4)) = Finite (3 / 4)"
  "roundMoney (Finite 1092) = Finite 1092" "roundMoney (Finite 1096) = Finite 1096"
  "roundMoney (Finite 1100) = Finite 1100"
  "roundMoney (Finite (4385 / 4)) = Finite (4385 / 4)"
  "nsub (Finite 1100) (Finite 4) = Finite 1096" "nsub (Finite 1100) (Finite 1096) = Finite 4"
  "nsub (Finite 1096) (Finite 4) = Finite 1092" "nsub (Finite 1096) (Finite 1092) = Finite 4"
  by code_simp+

lemma share_examples:
  "roundMoney (nmul (Finite 5) (toNumber (4 / 5))) = Finite 4"
  "roundMoney (nmul (Finite 5) (toNumber (1 / 5))) = Finite 1"
  "roundMoney (nmul (Finite 5) (toNumber (83 / 100))) = toNumber (83 / 20)"
  "roundMoney (nmul (Finite 1) (toNumber (3 / 10))) = toNumber (3 / 10)"
  "roundMoney (nmul (Finite 1) (toNumber (7 / 10))) = toNumber (7 / 10)"
  by code_simp+

lemma fractional_examples:
  "nsub (Finite 1100) (toNumber (83 / 20)) = toNumber (21917 / 20)"
  "nless (toNumber (21917 / 20)) (Finite 1000) = False"
  "roundMoney (toNumber (21917 / 20)) = toNumber (21917 / 20)"
  "nsub (Finite 1100) (toNumber (21917 / 20)) = Finite (9125946510541 / 2199023255552)"
  "roundMoney (Finite (9125946510541 / 2199023255552)) = toNumber (83 / 20)"
  "toNumber (83 / 20) \<noteq> Finite (9125946510541 / 2199023255552)"
  "nadd (Finite 0) (toNumber (3 / 10)) = toNumber (3 / 10)"
  "nadd (Finite 0) (toNumber (7 / 10)) = toNumber (7 / 10)"
  "roundMoney (toNumber (3 / 10)) = toNumber (3 / 10)"
  "roundMoney (toNumber (7 / 10)) = toNumber (7 / 10)"
  "nadd (toNumber (21917 / 20)) (toNumber (3 / 10)) = Finite (4820918683146649 / 4398046511104)"
  "roundMoney (Finite (4820918683146649 / 4398046511104)) = toNumber (21923 / 20)"
  by code_simp+

lemma purchase_sums:
  "nadd (Finite 1096) (Finite (1 / 4)) = Finite (4385 / 4)"
  "nadd (toNumber (427 / 200)) (Finite 0) = toNumber (427 / 200)"
  by code_simp+

lemma nearest_doubles:
  "toNumber (83 / 20) = Finite (2336242306698445 / 562949953421312)"
  "toNumber (21917 / 20) = Finite (2409799634596659 / 2199023255552)"
  "toNumber (21923 / 20) = Finite (2410459341573325 / 2199023255552)"
  "toNumber (3 / 10) = Finite (5404319552844595 / 18014398509481984)"
  "toNumber (7 / 10) = Finite (3152519739159347 / 4503599627370496)"
  by code_simp+

lemma floor_examples:
  "nless (toNumber (274001 / 250)) (Finite 1100) = True"
  "nless (Finite 1096) (toNumber (274001 / 250)) = True"
  "roundMoney (toNumber (274001 / 250)) = Finite 1096"
  "nless (toNumber (249999 / 250)) (toNumber (999999 / 1000)) = True"
  "nless (toNumber (999999 / 1000)) (Finite 1000) = True"
  "roundMoney (toNumber (249999 / 250)) = Finite 1000"
  "roundMoney (Finite 1000000000000002) = Finite (8000000000000015 / 8)"
  "nsub (Finite (8000000000000015 / 8)) (Finite 4) = Finite (7999999999999983 / 8)"
  "nsub (Finite (8000000000000015 / 8)) (Finite (8000000000000015 / 8)) = Finite 0"
  by code_simp+

lemmas engine_defs =
  applyView_def applyPurchase_def releaseLock_def initDrop_def isLocked_def
  truthyString_def truthyNumber_def laterThan_def LOCK_DURATION_def Let_def

subsection \<open>The price floor\<close>

lemma currentPrice_releaseLock: "currentPrice (releaseLock s a) = currentPrice s"
  by (simp add: releaseLock_def)

lemma currentPrice_applyPurchase:
  "currentPrice (PurchaseResult.state (applyPurchase s c b now)) = currentPrice s"
  by (simp add: applyPurchase_def Let_def)

lemma viewedOnce_eq:
  "viewedOnce =
     \<lparr> DropState.productId = ''iphone17'', currentPrice = Finite 1096, isSold = False,
       totalViews = 1, buyerId = None, DropState.soldPrice = None,
       activeViewerId = Some ''viewer_1'', activeViewExpiresAt = Some 31000, queue = [],
       totalPlatformRevenue = Finite 1, totalSupplierPlatformRevenue = Finite (1 / 4),
       DropState.totalQomoRevenue = Finite (3 / 4) \<rparr>"
  by (simp add: viewedOnce_def exampleConfig_def engine_defs share_examples whole_examples)

lemma reachable_viewedOnce: "reachable exampleConfig viewedOnce"
  unfolding viewedOnce_def by (intro reachable.view reachable.init)

text \<open>
  C1. The price of a drop must not fall below \<open>minPrice\<close>: the header of the source says
  ``Price cannot drop below minPrice'', and the claim asks for \<open>currentPrice \<ge> minPrice\<close>
  after every \<open>applyView\<close> of an execution whose config has \<open>minPrice \<le> basePrice\<close>.
  Evaluation of the engine where it does not hold. With the floor 1096.004, below the
  base price 1100, the first view of the drop lowers the price to 1096 and clamps it to
  the floor, and then rounds the clamped price: the state holds 1096.00, below the floor.
  With base price and floor both 1000000000000002 the rounding itself yields
  1000000000000001.875, in \<open>initDrop\<close> and again after the clamp of the first view.
\<close>

theorem price_floor_undercut:
  "nless (minPrice subCentFloorConfig) (basePrice subCentFloorConfig)
   \<and> reachable subCentFloorConfig (initDrop subCentFloorConfig)
   \<and> currentPrice (initDrop subCentFloorConfig) = Finite 1100
   \<and> status (applyView (initDrop subCentFloorConfig) subCentFloorConfig ''viewer_1'' 1000)
       = LOCKED
   \<and> currentPrice (ViewEventResult.state
        (applyView (initDrop subCentFloorConfig) subCentFloorConfig ''viewer_1'' 1000))
       = Finite 1096
   \<and> nless (currentPrice (ViewEventResult.state
               (applyView (initDrop subCentFloorConfig) subCentFloorConfig ''viewer_1'' 1000)))
            (minPrice subCentFloorConfig)
   \<and> minPrice largeConfig = basePrice largeConfig
   \<and> roundMoney (minPrice largeConfig) = Finite (1000000000000001 + 7 / 8)
   \<and> currentPrice (initDrop largeConfig) = Finite (1000000000000001 + 7 / 8)
   \<and> currentPrice (ViewEventResult.state
        (applyView (initDrop largeConfig) largeConfig ''viewer_1'' 1000))
       = Finite (1000000000000001 + 7 / 8)
   \<and> nless (currentPrice (ViewEventResult.state
               (applyView (initDrop largeConfig) largeConfig ''viewer_1'' 1000)))
            (minPrice largeConfig)"
proof -
  have "reachable subCentFloorConfig (initDrop subCentFloorConfig)"
    by (rule reachable.init)
  then show ?thesis
    by (simp add: subCentFloorConfig_def largeConfig_def exampleConfig_def engine_defs
        share_examples whole_examples floor_examples)
qed

subsection \<open>Granting the lock\<close>

text \<open>
  The lock test of the source, spelled out: a holder is set, its id is not the empty
  string, and the expiry lies after the instant read from the clock.
\<close>

lemma isLocked_iff:
  "isLocked s now \<longleftrightarrow>
     (\<exists>h e. activeViewerId s = Some h \<and> h \<noteq> [] \<and> activeViewExpiresAt s = Some e \<and> now < e)"
  by (auto simp add: isLocked_def truthyString_def truthyNumber_def laterThan_def
      split: option.splits)


lemma viewedFractional_eq:
  "viewedFractional =
     \<lparr> DropState.productId = ''iphone17'', currentPrice = toNumber (21917 / 20),
       isSold = False, totalViews = 1, buyerId = None, DropState.soldPrice = None,
       activeViewerId = Some ''viewer_1'', activeViewExpiresAt = Some 31000, queue = [],
       totalPlatformRevenue = Finite 1, totalSupplierPlatformRevenue = toNumber (3 / 10),
       DropState.totalQomoRevenue = toNumber (7 / 10) \<rparr>"
  by (simp add: viewedFractional_def fractionalConfig_def exampleConfig_def engine_defs
      share_examples whole_examples fractional_examples)




subsection \<open>Purchase\<close>

text \<open>
  C3. For every unsold state in which no unexpired lock is held by an actor other than
  the buyer, \<open>applyPurchase\<close> succeeds with \<open>soldPrice\<close> the state's current price,
  \<open>totalSupplierRevenue = round (soldPrice + totalSupplierPlatformRevenue)\<close> and
  \<open>totalQomoRevenue\<close> the state's accrued total; the returned state is the input with
  \<open>isSold\<close> set, buyer and sold price recorded, the lock fields cleared and the queue
  emptied. The sum is the one of doubles and \<open>round\<close> is \<open>roundMoney\<close>: as long as price and
  accrued share are at most \<open>2\<^sup>3\<^sup>1\<close> in magnitude, the supplier's total is the double
  nearest to a whole number of cents, within half a cent (and \<open>2\<^sup>-\<^sup>1\<^sup>8\<close>) of the exact sum.
\<close>

theorem purchase_settlement:
  assumes "\<not> isSold s"
    and "\<not> (\<exists>a e. activeViewerId s = Some a \<and> a \<noteq> buyer
               \<and> activeViewExpiresAt s = Some e \<and> now < e)"
  shows "applyPurchase s c buyer now =
     \<lparr> PurchaseResult.success = True,
       PurchaseResult.soldPrice = currentPrice s,
       totalSupplierRevenue = roundMoney (nadd (currentPrice s) (totalSupplierPlatformRevenue s)),
       PurchaseResult.totalQomoRevenue = DropState.totalQomoRevenue s,
       PurchaseResult.state =
         s\<lparr> isSold := True, buyerId := Some buyer,
             DropState.soldPrice := Some (currentPrice s),
             activeViewerId := None, activeViewExpiresAt := None, queue := [] \<rparr>,
       PurchaseResult.error = None \<rparr>
   \<and> (\<forall>p t. currentPrice s = Finite p \<and> totalSupplierPlatformRevenue s = Finite t
              \<and> \<bar>p\<bar> \<le> 2 ^ 31 \<and> \<bar>t\<bar> \<le> 2 ^ 31 \<longrightarrow>
         (\<exists>n. totalSupplierRevenue (applyPurchase s c buyer now)
                 = Finite (roundToDouble (of_int n / 100))
              \<and> \<bar>of_int n / 100 - (p + t)\<bar> \<le> 1 / 200 + 1 / 2 ^ 18))"
proof -
  have "\<not> (truthyString (activeViewerId s)
            \<and> (activeViewerId s \<noteq> Some buyer
                 \<and> truthyNumber (activeViewExpiresAt s)
                 \<and> laterThan (activeViewExpiresAt s) now))"
    using assms(2)
    by (auto simp add: truthyString_def truthyNumber_def laterThan_def split: option.splits)
  then have result: "applyPurchase s c buyer now =
     \<lparr> PurchaseResult.success = True,
       PurchaseResult.soldPrice = currentPrice s,
       totalSupplierRevenue = roundMoney (nadd (currentPrice s) (totalSupplierPlatformRevenue s)),
       PurchaseResult.totalQomoRevenue = DropState.totalQomoRevenue s,
       PurchaseResult.state =
         s\<lparr> isSold := True, buyerId := Some buyer,
             DropState.soldPrice := Some (currentPrice s),
             activeViewerId := None, activeViewExpiresAt := None, queue := [] \<rparr>,
       PurchaseResult.error = None \<rparr>"
    using assms(1) by (simp add: applyPurchase_def Let_def)
  have cents: "\<exists>n. totalSupplierRevenue (applyPurchase s c buyer now)
                 = Finite (roundToDouble (of_int n / 100))
              \<and> \<bar>of_int n / 100 - (p + t)\<bar> \<le> 1 / 200 + 1 / 2 ^ 18"
    if "currentPrice s = Finite p" and "totalSupplierPlatformRevenue s = Finite t"
      and "\<bar>p\<bar> \<le> 2 ^ 31" and "\<bar>t\<bar> \<le> 2 ^ 31" for p t
  proof -
    have "totalSupplierRevenue (applyPurchase s c buyer now)
            = roundMoney (nadd (Finite p) (Finite t))"
      unfolding result using that(1,2) by simp
    then show ?thesis
      by (simp only: roundMoney_nadd_cents [OF that(3,4)])
  qed
  from result cents show ?thesis by blast
qed

text \<open>
  Witness for C3, where the rounding is at work: \<open>viewer_1\<close>, holding the lock of the drop
  with the per-view drop 4.15, buys at 1095.85 with the accrued share 0.30. The sum of the
  two doubles is 1096.1499999999999, and the supplier receives 1096.15; the operator
  receives 0.70.
\<close>

theorem purchase_settlement_witness:
  "isSold viewedFractional = False
   \<and> \<not> (\<exists>a e. activeViewerId viewedFractional = Some a \<and> a \<noteq> ''viewer_1''
               \<and> activeViewExpiresAt viewedFractional = Some e \<and> (2000::nat) < e)
   \<and> nadd (currentPrice viewedFractional) (totalSupplierPlatformRevenue viewedFractional)
       = Finite (4820918683146649 / 4398046511104)
   \<and> nadd (currentPrice viewedFractional) (totalSupplierPlatformRevenue viewedFractional)
       \<noteq> toNumber (109615 / 100)
   \<and> applyPurchase viewedFractional fractionalConfig ''viewer_1'' 2000 =
       \<lparr> PurchaseResult.success = True, PurchaseResult.soldPrice = toNumber (109585 / 100),
         totalSupplierRevenue = toNumber (109615 / 100),
         PurchaseResult.totalQomoRevenue = toNumber (7 / 10),
         PurchaseResult.state =
           \<lparr> DropState.productId = ''iphone17'', currentPrice = toNumber (109585 / 100),
             isSold = True, totalViews = 1, buyerId = Some ''viewer_1'',
             DropState.soldPrice = Some (toNumber (109585 / 100)),
             activeViewerId = None, activeViewExpiresAt = None, queue = [],
             totalPlatformRevenue = Finite 1,
             totalSupplierPlatformRevenue = toNumber (3 / 10),
             DropState.totalQomoRevenue = toNumber (7 / 10) \<rparr>,
         PurchaseResult.error = None \<rparr>
   \<and> (\<exists>n. totalSupplierRevenue (applyPurchase viewedFractional fractionalConfig ''viewer_1'' 2000)
             = Finite (roundToDouble (of_int n / 100))
          \<and> \<bar>of_int n / 100
                - (2409799634596659 / 2199023255552 + 5404319552844595 / 18014398509481984)\<bar>
              \<le> (1 / 200 + 1 / 2 ^ 18 :: rat))"
proof -
  have h1: "\<not> isSold viewedFractional"
    by (simp add: viewedFractional_eq)
  have h2: "\<not> (\<exists>a e. activeViewerId viewedFractional = Some a \<and> a \<noteq> ''viewer_1''
               \<and> activeViewExpiresAt viewedFractional = Some e \<and> (2000::nat) < e)"
    by (simp add: viewedFractional_eq)
  note t = purchase_settlement [OF h1 h2, of fractionalConfig]
  have s: "nadd (currentPrice viewedFractional) (totalSupplierPlatformRevenue viewedFractional)
       = Finite (4820918683146649 / 4398046511104)"
    by (simp add: viewedFractional_eq fractional_examples)
  have d: "nadd (currentPrice viewedFractional) (totalSupplierPlatformRevenue viewedFractional)
       \<noteq> toNumber (109615 / 100)"
    unfolding s by (simp add: nearest_doubles)
  from t have r: "applyPurchase viewedFractional fractionalConfig ''viewer_1'' 2000 =
       \<lparr> PurchaseResult.success = True, PurchaseResult.soldPrice = toNumber (109585 / 100),
         totalSupplierRevenue = toNumber (109615 / 100),
         PurchaseResult.totalQomoRevenue = toNumber (7 / 10),
         PurchaseResult.state =
           \<lparr> DropState.productId = ''iphone17'', currentPrice = toNumber (109585 / 100),
             isSold = True, totalViews = 1, buyerId = Some ''viewer_1'',
             DropState.soldPrice = Some (toNumber (109585 / 100)),
             activeViewerId = None, activeViewExpiresAt = None, queue = [],
             totalPlatformRevenue = Finite 1,
             totalSupplierPlatformRevenue = toNumber (3 / 10),
             DropState.totalQomoRevenue = toNumber (7 / 10) \<rparr>,
         PurchaseResult.error = None \<rparr>"
    by (simp add: viewedFractional_eq fractional_examples)
  have v: "currentPrice viewedFractional = Finite (2409799634596659 / 2199023255552)
      \<and> totalSupplierPlatformRevenue viewedFractional
          = Finite (5404319552844595 / 18014398509481984)
      \<and> \<bar>2409799634596659 / 2199023255552 :: rat\<bar> \<le> 2 ^ 31
      \<and> \<bar>5404319552844595 / 18014398509481984 :: rat\<bar> \<le> 2 ^ 31"
    by (simp add: viewedFractional_eq nearest_doubles)
  from t v have n:
    "\<exists>n. totalSupplierRevenue (applyPurchase viewedFractional fractionalConfig ''viewer_1'' 2000)
             = Finite (roundToDouble (of_int n / 100))
          \<and> \<bar>of_int n / 100
                - (2409799634596659 / 2199023255552 + 5404319552844595 / 18014398509481984)\<bar>
              \<le> (1 / 200 + 1 / 2 ^ 18 :: rat)"
    by blast
  have i: "isSold viewedFractional = False"
    using h1 by simp
  from i h2 s d r n show ?thesis by blast
qed

text \<open>
  The example of the specification: \<open>viewer_1\<close>, holding the lock, buys at 1096.00; the
  supplier receives 1096.25 and the operator 0.75. And a price of 2.135 with no accrued
  share pays the supplier 2.13: the double nearest to 2.135 lies below it.
\<close>

lemma purchase_example:
  "applyPurchase viewedOnce exampleConfig ''viewer_1'' 2000 =
       \<lparr> PurchaseResult.success = True, PurchaseResult.soldPrice = Finite 1096,
         totalSupplierRevenue = Finite (4385 / 4),
         PurchaseResult.totalQomoRevenue = Finite (3 / 4),
         PurchaseResult.state =
           \<lparr> DropState.productId = ''iphone17'', currentPrice = Finite 1096, isSold = True,
             totalViews = 1, buyerId = Some ''viewer_1'',
             DropState.soldPrice = Some (Finite 1096),
             activeViewerId = None, activeViewExpiresAt = None, queue = [],
             totalPlatformRevenue = Finite 1, totalSupplierPlatformRevenue = Finite (1 / 4),
             DropState.totalQomoRevenue = Finite (3 / 4) \<rparr>,
         PurchaseResult.error = None \<rparr>"
  "totalSupplierRevenue
     (applyPurchase ((initDrop exampleConfig)\<lparr>currentPrice := toNumber (2135 / 1000)\<rparr>)
        exampleConfig ''viewer_1'' 2000) = toNumber (213 / 100)"
  by (simp_all add: viewedOnce_eq exampleConfig_def engine_defs whole_examples double_examples
      purchase_sums)

lemma viewedByEmptyId_eq:
  "viewedByEmptyId =
     \<lparr> DropState.productId = ''iphone17'', currentPrice = Finite 1096, isSold = False,
       totalViews = 1, buyerId = None, DropState.soldPrice = None,
       activeViewerId = Some [], activeViewExpiresAt = Some 31000, queue = [],
       totalPlatformRevenue = Finite 1, totalSupplierPlatformRevenue = Finite (1 / 4),
       DropState.totalQomoRevenue = Finite (3 / 4) \<rparr>"
  by (simp add: viewedByEmptyId_def exampleConfig_def engine_defs share_examples whole_examples)

lemma purchase_fails_iff:
  assumes "activeViewerId s \<noteq> Some []"
  shows "PurchaseResult.success (applyPurchase s c b now) = False \<longleftrightarrow>
     isSold s \<or> (\<exists>h e. activeViewerId s = Some h \<and> h \<noteq> b
                    \<and> activeViewExpiresAt s = Some e \<and> now < e)"
  using assms
  by (auto simp add: applyPurchase_def Let_def truthyString_def truthyNumber_def laterThan_def
      split: option.splits)

lemma purchase_failure_keeps_state:
  "PurchaseResult.success (applyPurchase s c b now) = False \<Longrightarrow>
     PurchaseResult.state (applyPurchase s c b now) = s"
  by (auto simp add: applyPurchase_def Let_def split: if_splits)

lemma purchase_errors:
  "PurchaseResult.error (applyPurchase s c b now) =
     (if isSold s then Some ''Product is already sold.''
      else if PurchaseResult.success (applyPurchase s c b now) then None
      else Some ''Product is currently locked by another user.'')"
  by (simp add: applyPurchase_def Let_def)

text \<open>
  C4. A purchase must fail while another actor holds an unexpired lock. Evaluation of
  the engine where it does not: the lock is held until 31000 by the viewer whose id is
  the empty string, and the purchase by \<open>bob\<close> at 2000 succeeds, because
  \<^verbatim>\<open>state.activeViewerId && ...\<close> takes the empty string for no holder. Lemma
  \<open>purchase_fails_iff\<close> above is the claim for every other holder.
\<close>

theorem purchase_passes_empty_id_lock:
  "isSold viewedByEmptyId = False
   \<and> activeViewerId viewedByEmptyId = Some []
   \<and> activeViewExpiresAt viewedByEmptyId = Some 31000
   \<and> PurchaseResult.success (applyPurchase viewedByEmptyId exampleConfig ''bob'' 2000) = True
   \<and> PurchaseResult.error (applyPurchase viewedByEmptyId exampleConfig ''bob'' 2000) = None
   \<and> buyerId (PurchaseResult.state (applyPurchase viewedByEmptyId exampleConfig ''bob'' 2000))
       = Some ''bob''"
  by (simp add: viewedByEmptyId_eq exampleConfig_def engine_defs)

subsection \<open>The lock holder and the queue\<close>

lemma holder_repoll_unchanged:
  assumes "\<not> isSold s" and "activeViewerId s = Some a" and "a \<noteq> []"
    and "activeViewExpiresAt s = Some e" and "now < e"
  shows "applyView s c a now =
     \<lparr> ViewEventResult.success = True, status = LOCKED, expiresAt = Some e,
       queuePosition = None, dropAmount = Finite 0, newPrice = currentPrice s,
       feeCharged = Finite 0, ViewEventResult.state = s, ViewEventResult.error = None \<rparr>"
proof -
  have "isLocked s now"
    using assms by (auto simp add: isLocked_iff)
  then show ?thesis
    using assms by (simp add: applyView_def)
qed

text \<open>
  C5. A lock holder who calls \<open>applyView\<close> again before the expiry must get the state
  back unchanged and be charged nothing. Evaluation of the engine where it does not: the
  holder's id is the empty string, which \<^verbatim>\<open>state.activeViewerId && ...\<close> takes for no
  holder, so the second call at 2000 charges the fee of 5 again and drops the price from
  1096 to 1092. Lemma \<open>holder_repoll_unchanged\<close> above is the claim for every other id.
\<close>

theorem empty_id_holder_is_charged_again:
  "isSold viewedByEmptyId = False
   \<and> activeViewerId viewedByEmptyId = Some []
   \<and> activeViewExpiresAt viewedByEmptyId = Some 31000
   \<and> currentPrice viewedByEmptyId = Finite 1096
   \<and> status (applyView viewedByEmptyId exampleConfig [] 2000) = LOCKED
   \<and> feeCharged (applyView viewedByEmptyId exampleConfig [] 2000) = Finite 5
   \<and> dropAmount (applyView viewedByEmptyId exampleConfig [] 2000) = Finite 4
   \<and> newPrice (applyView viewedByEmptyId exampleConfig [] 2000) = Finite 1092
   \<and> expiresAt (applyView viewedByEmptyId exampleConfig [] 2000) = Some 32000
   \<and> totalViews (ViewEventResult.state (applyView viewedByEmptyId exampleConfig [] 2000)) = 2"
  by (simp add: viewedByEmptyId_eq exampleConfig_def engine_defs share_examples whole_examples)

lemma indexOf_absent: "a \<notin> set q \<Longrightarrow> indexOf q a = - 1"
  by (induction q) (auto simp add: Let_def)

lemma indexOf_present:
  "a \<in> set q \<Longrightarrow> indexOf q a = int (length (takeWhile (\<lambda>x. x \<noteq> a) q))"
  by (induction q) (auto simp add: Let_def indexOf_absent)

lemma indexOf_appended: "a \<notin> set q \<Longrightarrow> indexOf (q @ [a]) a = int (length q)"
  by (induction q) (auto simp add: Let_def)

lemma queued_behind_lock:
  assumes "\<not> isSold s" and "activeViewerId s = Some h" and "h \<noteq> []" and "h \<noteq> a"
    and "activeViewExpiresAt s = Some e" and "now < e"
  shows "applyView s c a now =
     \<lparr> ViewEventResult.success = False, status = QUEUED, expiresAt = None,
       queuePosition =
         Some (indexOf (if a \<in> set (queue s) then queue s else queue s @ [a]) a + 1),
       dropAmount = Finite 0, newPrice = currentPrice s, feeCharged = Finite 0,
       ViewEventResult.state =
         s\<lparr>queue := (if a \<in> set (queue s) then queue s else queue s @ [a])\<rparr>,
       ViewEventResult.error = None \<rparr>"
proof -
  have "isLocked s now"
    using assms by (auto simp add: isLocked_iff)
  then show ?thesis
    using assms by (simp add: applyView_def Let_def)
qed

lemma queued_behind_waiters:
  assumes "\<not> isSold s" and "\<not> isLocked s now" and "queue s \<noteq> []" and "hd (queue s) \<noteq> a"
  shows "applyView s c a now =
     \<lparr> ViewEventResult.success = False, status = QUEUED, expiresAt = None,
       queuePosition =
         Some (indexOf (if a \<in> set (queue s) then queue s else queue s @ [a]) a + 1),
       dropAmount = Finite 0, newPrice = currentPrice s, feeCharged = Finite 0,
       ViewEventResult.state =
         s\<lparr>activeViewerId := None, activeViewExpiresAt := None,
           queue := (if a \<in> set (queue s) then queue s else queue s @ [a])\<rparr>,
       ViewEventResult.error = None \<rparr>"
  using assms by (simp add: applyView_def Let_def)

lemma queue_position:
  "indexOf (if a \<in> set q then q else q @ [a]) a + 1
     = int (length (takeWhile (\<lambda>x. x \<noteq> a) q)) + 1"
proof (cases "a \<in> set q")
  case True
  then show ?thesis by (simp add: indexOf_present)
next
  case False
  then have tw: "takeWhile (\<lambda>x. x \<noteq> a) q = q" by (auto simp add: takeWhile_eq_all_conv)
  show ?thesis unfolding tw using False by (simp add: indexOf_appended)
qed

lemma locked_only_if_eligible:
  assumes "status (applyView s c a now) = LOCKED"
  shows "(isLocked s now \<and> activeViewerId s = Some a)
       \<or> (\<not> isLocked s now \<and> (queue s = [] \<or> hd (queue s) = a))"
  using assms by (auto simp add: applyView_def Let_def split: if_splits)

text \<open>
  C6. The lock must be granted only when no other actor holds an unexpired lock, and a
  caller who finds one must be queued. Evaluation of the engine where it does not: the
  lock is held until 31000 by the viewer whose id is the empty string, and \<open>bob\<close>, calling
  at 2000, is granted the lock and charged instead of being queued. Lemmas
  \<open>queued_behind_lock\<close>, \<open>queued_behind_waiters\<close>, \<open>queue_position\<close> and
  \<open>locked_only_if_eligible\<close> above are the claim for every other holder.
\<close>

theorem lock_granted_over_empty_id_lock:
  "isSold viewedByEmptyId = False
   \<and> activeViewerId viewedByEmptyId = Some []
   \<and> activeViewExpiresAt viewedByEmptyId = Some 31000
   \<and> status (applyView viewedByEmptyId exampleConfig ''bob'' 2000) = LOCKED
   \<and> feeCharged (applyView viewedByEmptyId exampleConfig ''bob'' 2000) = Finite 5
   \<and> activeViewerId (ViewEventResult.state (applyView viewedByEmptyId exampleConfig ''bob'' 2000))
       = Some ''bob''
   \<and> queue (ViewEventResult.state (applyView viewedByEmptyId exampleConfig ''bob'' 2000)) = []"
  by (simp add: viewedByEmptyId_eq exampleConfig_def engine_defs)

subsection \<open>After the sale\<close>

lemma isSold_applyView: "isSold (ViewEventResult.state (applyView s c a now)) = isSold s"
  by (simp add: applyView_def Let_def)

lemma reachable_sold_unlocked: "reachable c s \<Longrightarrow> isSold s \<Longrightarrow> activeViewerId s = None"
proof (induction rule: reachable.induct)
  case init
  then show ?case by (simp add: initDrop_def)
next
  case (view s a now)
  then have "isSold s" by (simp add: isSold_applyView)
  then show ?case using view.IH by (simp add: applyView_def)
next
  case (release s a)
  then show ?case by (simp add: releaseLock_def split: if_splits)
next
  case (purchase s b now)
  then show ?case by (auto simp add: applyPurchase_def Let_def split: if_splits)
qed

text \<open>
  C7. Once a state is sold, no operation changes it: \<open>applyView\<close> fails with status
  \<open>SOLD\<close> and no fee, \<open>applyPurchase\<close> fails with the already-sold error, both returning
  the state as it is, and \<open>releaseLock\<close> returns the sold state of an execution as it is
  (the sale has cleared the lock). Whatever the sold state, \<open>releaseLock\<close> keeps the
  price, the sale facts and the three revenue totals.
\<close>

theorem sold_state_immutable:
  assumes "isSold s"
  shows "applyView s c a now =
           \<lparr> ViewEventResult.success = False, status = SOLD, expiresAt = None,
             queuePosition = None, dropAmount = Finite 0, newPrice = currentPrice s,
             feeCharged = Finite 0, ViewEventResult.state = s,
             ViewEventResult.error = Some ''Product is already sold.'' \<rparr>
       \<and> applyPurchase s c a now =
           \<lparr> PurchaseResult.success = False, PurchaseResult.soldPrice = Finite 0,
             totalSupplierRevenue = Finite 0, PurchaseResult.totalQomoRevenue = Finite 0,
             PurchaseResult.state = s,
             PurchaseResult.error = Some ''Product is already sold.'' \<rparr>
       \<and> (reachable c s \<longrightarrow> releaseLock s a = s)
       \<and> isSold (releaseLock s a)
       \<and> currentPrice (releaseLock s a) = currentPrice s
       \<and> DropState.soldPrice (releaseLock s a) = DropState.soldPrice s
       \<and> buyerId (releaseLock s a) = buyerId s
       \<and> totalPlatformRevenue (releaseLock s a) = totalPlatformRevenue s
       \<and> totalSupplierPlatformRevenue (releaseLock s a) = totalSupplierPlatformRevenue s
       \<and> DropState.totalQomoRevenue (releaseLock s a) = DropState.totalQomoRevenue s"
proof -
  have "releaseLock s a = s" if "reachable c s"
  proof -
    have "activeViewerId s = None"
      using that assms by (rule reachable_sold_unlocked)
    then show ?thesis by (simp add: releaseLock_def)
  qed
  then show ?thesis
    using assms by (simp add: applyView_def applyPurchase_def releaseLock_def)
qed

lemma soldOnce_eq:
  "soldOnce =
     \<lparr> DropState.productId = ''iphone17'', currentPrice = Finite 1096, isSold = True,
       totalViews = 1, buyerId = Some ''viewer_1'', DropState.soldPrice = Some (Finite 1096),
       activeViewerId = None, activeViewExpiresAt = None, queue = [],
       totalPlatformRevenue = Finite 1, totalSupplierPlatformRevenue = Finite (1 / 4),
       DropState.totalQomoRevenue = Finite (3 / 4) \<rparr>"
  by (simp add: soldOnce_def viewedOnce_eq engine_defs)

text \<open>
  Witness for C7: the example drop after \<open>viewer_1\<close> has bought it; \<open>viewer_2\<close> then
  views and buys in vain, and \<open>viewer_1\<close>, the last holder, releases a lock that is gone.
\<close>

theorem sold_state_immutable_witness:
  "reachable exampleConfig soldOnce \<and> isSold soldOnce
   \<and> applyView soldOnce exampleConfig ''viewer_2'' 3000 =
       \<lparr> ViewEventResult.success = False, status = SOLD, expiresAt = None,
         queuePosition = None, dropAmount = Finite 0, newPrice = Finite 1096,
         feeCharged = Finite 0, ViewEventResult.state = soldOnce,
         ViewEventResult.error = Some ''Product is already sold.'' \<rparr>
   \<and> applyPurchase soldOnce exampleConfig ''viewer_2'' 3000 =
       \<lparr> PurchaseResult.success = False, PurchaseResult.soldPrice = Finite 0,
         totalSupplierRevenue = Finite 0, PurchaseResult.totalQomoRevenue = Finite 0,
         PurchaseResult.state = soldOnce,
         PurchaseResult.error = Some ''Product is already sold.'' \<rparr>
   \<and> releaseLock soldOnce ''viewer_1'' = soldOnce"
proof -
  have h1: "reachable exampleConfig soldOnce"
    unfolding soldOnce_def by (intro reachable.purchase reachable_viewedOnce)
  have h2: "isSold soldOnce"
    by (simp add: soldOnce_eq)
  have p: "currentPrice soldOnce = Finite 1096"
    by (simp add: soldOnce_eq)
  from sold_state_immutable [OF h2, of exampleConfig "''viewer_2''" 3000]
    sold_state_immutable [OF h2, of exampleConfig "''viewer_1''" 3000] h1 h2
  show ?thesis
    by (simp add: p)
qed

subsection \<open>The wall clock\<close>

text \<open>
  C8 (amended). Each operation is a function of its arguments and of the instant it
  reads from the wall clock: \<open>applyView\<close> and \<open>applyPurchase\<close> read \<^verbatim>\<open>Date.now()\<close>,
  \<open>releaseLock\<close> reads no clock. Two calls with the same state, config and actor whose
  instants lie on the same side of the stored expiry return the same purchase result,
  the same view result when the state is sold or a lock is active, and in every case
  view results that differ at most in the expiry they stamp.
\<close>

theorem results_depend_on_clock_through_expiry:
  assumes "laterThan (activeViewExpiresAt s) now = laterThan (activeViewExpiresAt s) now'"
  shows "applyPurchase s c a now = applyPurchase s c a now'
    \<and> (isSold s \<or> isLocked s now \<longrightarrow> applyView s c a now = applyView s c a now')
    \<and> (applyView s c a now)
          \<lparr> expiresAt := None,
            ViewEventResult.state :=
              (ViewEventResult.state (applyView s c a now))\<lparr>activeViewExpiresAt := None\<rparr> \<rparr>
      = (applyView s c a now')
          \<lparr> expiresAt := None,
            ViewEventResult.state :=
              (ViewEventResult.state (applyView s c a now'))\<lparr>activeViewExpiresAt := None\<rparr> \<rparr>"
proof -
  have l: "isLocked s now = isLocked s now'"
    using assms by (simp add: isLocked_def)
  have "applyPurchase s c a now = applyPurchase s c a now'"
    using assms by (simp add: applyPurchase_def)
  moreover have "applyView s c a now = applyView s c a now'" if "isSold s \<or> isLocked s now"
    using that l by (auto simp add: applyView_def)
  moreover have "(applyView s c a now)
          \<lparr> expiresAt := None,
            ViewEventResult.state :=
              (ViewEventResult.state (applyView s c a now))\<lparr>activeViewExpiresAt := None\<rparr> \<rparr>
      = (applyView s c a now')
          \<lparr> expiresAt := None,
            ViewEventResult.state :=
              (ViewEventResult.state (applyView s c a now'))\<lparr>activeViewExpiresAt := None\<rparr> \<rparr>"
    using l by (simp add: applyView_def Let_def)
  ultimately show ?thesis by blast
qed

text \<open>
  Witness for C8: two calls by \<open>viewer_2\<close> at 2000 and 3000, both before the lock of
  \<open>viewer_1\<close> expires at 31000.
\<close>

theorem results_depend_on_clock_witness:
  "laterThan (activeViewExpiresAt viewedOnce) 2000 = laterThan (activeViewExpiresAt viewedOnce) 3000
   \<and> isLocked viewedOnce 2000
   \<and> applyPurchase viewedOnce exampleConfig ''viewer_2'' 2000
       = applyPurchase viewedOnce exampleConfig ''viewer_2'' 3000
   \<and> applyView viewedOnce exampleConfig ''viewer_2'' 2000
       = applyView viewedOnce exampleConfig ''viewer_2'' 3000
   \<and> status (applyView viewedOnce exampleConfig ''viewer_2'' 3000) = QUEUED"
proof -
  have h: "laterThan (activeViewExpiresAt viewedOnce) 2000
           = laterThan (activeViewExpiresAt viewedOnce) 3000"
    by (simp add: viewedOnce_eq laterThan_def)
  have l: "isLocked viewedOnce 2000"
    by (simp add: viewedOnce_eq isLocked_def truthyString_def truthyNumber_def laterThan_def)
  have q: "status (applyView viewedOnce exampleConfig ''viewer_2'' 3000) = QUEUED"
    by (simp add: viewedOnce_eq engine_defs)
  from results_depend_on_clock_through_expiry [OF h, of exampleConfig "''viewer_2''"] h l q
  show ?thesis by simp
qed

text \<open>
  Counterexample for C8 as stated: the same state, config and actor at two instants, one
  before and one after the expiry 31000. The view is queued at the first and granted at
  the second; the purchase fails at the first and succeeds at the second.
\<close>

theorem clock_is_an_input_counterexample:
  "status (applyView viewedOnce exampleConfig ''viewer_2'' 2000) = QUEUED
   \<and> status (applyView viewedOnce exampleConfig ''viewer_2'' 40000) = LOCKED
   \<and> PurchaseResult.success (applyPurchase viewedOnce exampleConfig ''viewer_2'' 2000) = False
   \<and> PurchaseResult.success (applyPurchase viewedOnce exampleConfig ''viewer_2'' 40000) = True
   \<and> applyView viewedOnce exampleConfig ''viewer_2'' 2000
       \<noteq> applyView viewedOnce exampleConfig ''viewer_2'' 40000
   \<and> applyPurchase viewedOnce exampleConfig ''viewer_2'' 2000
       \<noteq> applyPurchase viewedOnce exampleConfig ''viewer_2'' 40000"
  by (simp add: viewedOnce_eq engine_defs exampleConfig_def)

subsection \<open>Releasing the lock\<close>

text \<open>
  C9. If the actor is the active viewer, \<open>releaseLock\<close> returns the state with the two
  lock fields cleared and every other field as it was; for any other actor, also when no
  lock is held, it returns the state as it is. It is total, and releasing twice is
  releasing once.
\<close>

theorem releaseLock_frame:
  "(activeViewerId s = Some a \<longrightarrow>
      releaseLock s a = s\<lparr>activeViewerId := None, activeViewExpiresAt := None\<rparr>)
   \<and> (activeViewerId s \<noteq> Some a \<longrightarrow> releaseLock s a = s)
   \<and> DropState.productId (releaseLock s a) = DropState.productId s
   \<and> currentPrice (releaseLock s a) = currentPrice s
   \<and> isSold (releaseLock s a) = isSold s
   \<and> totalViews (releaseLock s a) = totalViews s
   \<and> buyerId (releaseLock s a) = buyerId s
   \<and> DropState.soldPrice (releaseLock s a) = DropState.soldPrice s
   \<and> queue (releaseLock s a) = queue s
   \<and> totalPlatformRevenue (releaseLock s a) = totalPlatformRevenue s
   \<and> totalSupplierPlatformRevenue (releaseLock s a) = totalSupplierPlatformRevenue s
   \<and> DropState.totalQomoRevenue (releaseLock s a) = DropState.totalQomoRevenue s
   \<and> releaseLock (releaseLock s a) a = releaseLock s a"
  by (simp add: releaseLock_def)

text \<open>
  Witness for C9: the holder \<open>viewer_1\<close> releases the lock of the example; \<open>viewer_2\<close>,
  who holds none, changes nothing.
\<close>

theorem releaseLock_frame_witness:
  "activeViewerId viewedOnce = Some ''viewer_1''
   \<and> releaseLock viewedOnce ''viewer_1'' =
       \<lparr> DropState.productId = ''iphone17'', currentPrice = Finite 1096, isSold = False,
         totalViews = 1, buyerId = None, DropState.soldPrice = None,
         activeViewerId = None, activeViewExpiresAt = None, queue = [],
         totalPlatformRevenue = Finite 1, totalSupplierPlatformRevenue = Finite (1 / 4),
         DropState.totalQomoRevenue = Finite (3 / 4) \<rparr>
   \<and> activeViewerId viewedOnce \<noteq> Some ''viewer_2''
   \<and> releaseLock viewedOnce ''viewer_2'' = viewedOnce"
proof -
  have h1: "activeViewerId viewedOnce = Some ''viewer_1''"
    and h2: "activeViewerId viewedOnce \<noteq> Some ''viewer_2''"
    by (simp_all add: viewedOnce_eq)
  from releaseLock_frame [of viewedOnce "''viewer_1''"] releaseLock_frame [of viewedOnce "''viewer_2''"]
    h1 h2
  have "releaseLock viewedOnce ''viewer_1''
          = viewedOnce\<lparr>activeViewerId := None, activeViewExpiresAt := None\<rparr>"
    and "releaseLock viewedOnce ''viewer_2'' = viewedOnce"
    by blast+
  then show ?thesis using h1 h2 by (simp add: viewedOnce_eq)
qed

subsection \<open>Initialisation\<close>




end
